theory Spec2Isabelle
  imports Main "HOL-Library.Word" "HOL-Library.Finite_Map" "HOL-Library.Sublist"
begin

section \<open>Values of the harness\<close>

text \<open>
  The metadata test harness of \<^verbatim>\<open>packages/types/src/metadata/util/testUtil.ts\<close>.
  Strings are \<open>string\<close>, bytes (\<^verbatim>\<open>Uint8Array\<close>) are lists of 8-bit words, and a thrown
  JavaScript error is a value of \<open>error\<close> that keeps its \<^verbatim>\<open>message\<close>.
\<close>

type_synonym byte = "8 word"

datatype error =
    Error string
  | TypeError string
  | AssertionError string
  | ENOENT string

fun message :: "error \<Rightarrow> string" where
  "message (Error m) = m"
| "message (TypeError m) = m"
| "message (AssertionError m) = m"
| "message (ENOENT m) = m"

text \<open>
  The structural tree that \<^verbatim>\<open>toJSON()\<close> returns and that \<^verbatim>\<open>JSON.parse\<close> reads back.
  An object is a finite map from keys to values, so that equality of trees is the
  recursive equality of \<^verbatim>\<open>toEqual\<close>, which does not look at the order of keys.
\<close>

datatype json =
    JNull
  | JBool bool
  | JNum int
  | JStr string
  | JArr "json list"
  | JObj "(string, json) fmap"

text \<open>The result of one registered test (\<^verbatim>\<open>it\<close>).\<close>

datatype outcome = Pass | Fail error

text \<open>What the harness prints: \<^verbatim>\<open>console.error(error)\<close> and \<^verbatim>\<open>console.warn(message)\<close>;
  and the one collaborator call whose being made is itself observed, \<^verbatim>\<open>getUniqTypes\<close>
  with its \<^verbatim>\<open>withThrow\<close> argument.\<close>

datatype event =
    ConsoleError error
  | ConsoleWarn string
  | GetUniqTypes bool

text \<open>\<^verbatim>\<open>Check\<close> of \<^verbatim>\<open>./types.js\<close>: the encoded metadata as a hex string, and the
  patterns of the storage locations that are expected to fail (\<^verbatim>\<open>fails = []\<close> when absent).\<close>

record check =
  data :: string
  fails :: "string list"

text \<open>
  The state the harness works on: the registry's metadata binding
  (\<^verbatim>\<open>registry.setMetadata\<close>), the fixture files by path with their parsed content,
  \<^verbatim>\<open>process.env.GITHUB_REPOSITORY\<close>, \<^verbatim>\<open>process.cwd()\<close>, and, in program order, what was printed and the observed call.
\<close>

record 'm state =
  registry :: "'m option"
  files :: "string \<rightharpoonup> json"
  GITHUB_REPOSITORY :: "string option"
  cwd :: string
  trace :: "event list"

text \<open>A test registered with \<^verbatim>\<open>it\<close> or \<^verbatim>\<open>it.skip\<close>: its name and its body.\<close>

datatype 'm test =
    It string "'m state \<Rightarrow> outcome \<times> 'm state"
  | ItSkip string "'m state \<Rightarrow> outcome \<times> 'm state"


text \<open>Running a registered test: a skipped one does not run its body.\<close>

fun run_test :: "'m test \<Rightarrow> 'm state \<Rightarrow> outcome option \<times> 'm state" where
  "run_test (It n b) s = (Some (fst (b s)), snd (b s))"
| "run_test (ItSkip n b) s = (None, s)"

section \<open>Storage descriptors of the latest metadata\<close>

text \<open>
  \<^verbatim>\<open>fallback\<close> is a \<^verbatim>\<open>Bytes\<close> object; the harness calls \<^verbatim>\<open>toHex()\<close> and
  \<^verbatim>\<open>toU8a(isBare)\<close> on it, which are its two fields here.
\<close>

record fallback_bytes =
  fb_toHex :: string
  fb_toU8a :: "bool \<Rightarrow> byte list"

record 't storage_item =
  item_name :: string
  modifier_isOptional :: bool
  item_type :: 't
  fallback :: fallback_bytes

record 't pallet =
  pallet_name :: string
  storage :: "'t storage_item list option"

text \<open>\<^verbatim>\<open>metadata.asLatest\<close>: its pallets, and the tree \<^verbatim>\<open>lookup.types.toJSON()\<close>.\<close>

record 't latest =
  pallets :: "'t pallet list"
  lookup_types_toJSON :: json

section \<open>The collaborators\<close>

text \<open>
  The codec, the registry and \<^verbatim>\<open>@polkadot/util\<close> are imported by the harness; they
  are parameters here. \<open>'m\<close> is \<^verbatim>\<open>Metadata\<close>, \<open>'t\<close> a storage entry type, \<open>'i\<close> a
  created codec instance. A call that can throw returns \<open>error + _\<close>.
\<close>

record ('m, 't, 'i) collab =
  new_Metadata :: "'m option \<Rightarrow> string \<Rightarrow> error + 'm"
  version_of :: "'m \<Rightarrow> nat"
  toHex :: "'m \<Rightarrow> string"
  toJSON :: "'m \<Rightarrow> json"
  asLatest :: "'m \<Rightarrow> error + 't latest"
  asCallsOnly :: "'m \<Rightarrow> error + 'm"
  getUniqTypes :: "'m option \<Rightarrow> 't latest \<Rightarrow> bool \<Rightarrow> error + unit"
  stringCamelCase :: "string \<Rightarrow> string"
  unwrapStorageType :: "'m option \<Rightarrow> 't \<Rightarrow> bool \<Rightarrow> error + string"
  unwrapStorageSi :: "'t \<Rightarrow> error + nat"
  createLookupType :: "'m option \<Rightarrow> nat \<Rightarrow> error + string"
  hexToU8a :: "string \<Rightarrow> error + byte list"
  createTypeUnsafe :: "'m option \<Rightarrow> string \<Rightarrow> byte list list \<Rightarrow> bool \<Rightarrow> error + 'i"
  instance_toU8a :: "'i \<Rightarrow> bool \<Rightarrow> byte list"

section \<open>Jest matchers\<close>

text \<open>\<^verbatim>\<open>expect(a).toEqual(b)\<close> and \<^verbatim>\<open>expect(a).toBe(b)\<close> throw when the values differ.\<close>

definition expect_toEqual :: "'a \<Rightarrow> 'a \<Rightarrow> error + unit" where
  "expect_toEqual received expected =
     (if received = expected then Inr () else Inl (AssertionError ''toEqual''))"

definition expect_toBe :: "'a \<Rightarrow> 'a \<Rightarrow> error + unit" where
  "expect_toBe received expected =
     (if received = expected then Inr () else Inl (AssertionError ''toBe''))"

text \<open>\<^verbatim>\<open>expect(fn).not.toThrow()\<close> throws when \<^verbatim>\<open>fn\<close> threw, and reports what it threw.\<close>

definition expect_not_toThrow :: "error + 'a \<Rightarrow> error + unit" where
  "expect_not_toThrow r =
     (case r of Inl e \<Rightarrow> Inl (AssertionError (message e)) | Inr _ \<Rightarrow> Inr ())"

text \<open>A test body passes when nothing escaped it.\<close>

definition outcome_of :: "error + 'a \<Rightarrow> outcome" where
  "outcome_of r = (case r of Inl e \<Rightarrow> Fail e | Inr _ \<Rightarrow> Pass)"

section \<open>serialize\<close>

definition it_serializes_to_hex ::
  "('m, 't, 'i) collab \<Rightarrow> 'm \<Rightarrow> check \<Rightarrow> 'm state \<Rightarrow> outcome \<times> 'm state" where
  "it_serializes_to_hex c metadata chk s =
     (outcome_of (expect_toEqual (toHex c metadata) (data chk)), s)"

definition it_construct_from_reserialized ::
  "('m, 't, 'i) collab \<Rightarrow> 'm \<Rightarrow> 'm state \<Rightarrow> outcome \<times> 'm state" where
  "it_construct_from_reserialized c metadata s =
     (outcome_of (expect_not_toThrow (new_Metadata c (registry s) (toHex c metadata))), s)"

definition it_construct_from_asCallsOnly ::
  "('m, 't, 'i) collab \<Rightarrow> 'm \<Rightarrow> 'm state \<Rightarrow> outcome \<times> 'm state" where
  "it_construct_from_asCallsOnly c metadata s =
     (outcome_of (expect_not_toThrow
        (case asCallsOnly c metadata of
           Inl e \<Rightarrow> Inl e
         | Inr callsOnly \<Rightarrow> new_Metadata c (registry s) (toHex c callsOnly))), s)"

definition serialize ::
  "('m, 't, 'i) collab \<Rightarrow> check \<Rightarrow> 'm state \<Rightarrow> error + ('m test list \<times> 'm state)" where
  "serialize c chk s =
     (case new_Metadata c (registry s) (data chk) of
        Inl e \<Rightarrow> Inl e
      | Inr metadata \<Rightarrow>
          Inr ([It ''serializes to hex in the same form as retrieved''
                  (it_serializes_to_hex c metadata chk),
                ItSkip ''can construct from a re-serialized form''
                  (it_construct_from_reserialized c metadata),
                It ''can construct from asCallsOnly.toHex()''
                  (it_construct_from_asCallsOnly c metadata)], s))"

section \<open>Numbers and strings of the runtime\<close>

text \<open>A number in a template literal: decimal digits, with a sign when negative.
  Versions are natural numbers.\<close>

definition digit_char :: "nat \<Rightarrow> char" where
  "digit_char d = ''0123456789'' ! d"

function toString_nat :: "nat \<Rightarrow> string" where
  "toString_nat n =
     (if n < 10 then [digit_char n] else toString_nat (n div 10) @ [digit_char (n mod 10)])"
  by pat_completeness auto
termination
  by (relation "measure id") auto

declare toString_nat.simps [simp del]

definition toString_int :: "int \<Rightarrow> string" where
  "toString_int i = (if i < 0 then CHR ''-'' # toString_nat (nat (- i)) else toString_nat (nat i))"

text \<open>\<^verbatim>\<open>u8aToHex\<close> of \<^verbatim>\<open>@polkadot/util\<close>: the prefix \<^verbatim>\<open>0x\<close>, then two lower-case
  hexadecimal digits for each byte.\<close>

definition hex_char :: "nat \<Rightarrow> char" where
  "hex_char d = ''0123456789abcdef'' ! d"

definition hex_of_byte :: "byte \<Rightarrow> string" where
  "hex_of_byte b = [hex_char (unat b div 16), hex_char (unat b mod 16)]"

definition u8aToHex :: "byte list \<Rightarrow> string" where
  "u8aToHex bs = ''0x'' @ concat (map hex_of_byte bs)"

text \<open>\<^verbatim>\<open>location.includes(f)\<close>: \<^verbatim>\<open>f\<close> occurs in \<^verbatim>\<open>location\<close> at some position.\<close>

fun str_includes :: "string \<Rightarrow> string \<Rightarrow> bool" where
  "str_includes [] f = (f = [])"
| "str_includes (x # xs) f = (take (length f) (x # xs) = f \<or> str_includes xs f)"

text \<open>The truth value of \<^verbatim>\<open>process.env.GITHUB_REPOSITORY\<close> in a condition: an unset
  variable is \<^verbatim>\<open>undefined\<close>, and the empty string is false as well.\<close>

definition truthy :: "string option \<Rightarrow> bool" where
  "truthy v = (case v of None \<Rightarrow> False | Some str \<Rightarrow> str \<noteq> [])"

section \<open>The fixture files\<close>

datatype sub = Sub_json | Sub_types

fun sub_name :: "sub \<Rightarrow> string" where
  "sub_name Sub_json = ''json''"
| "sub_name Sub_types = ''types''"

definition path_join :: "string \<Rightarrow> string \<Rightarrow> string" where
  "path_join dir rel = dir @ ''/'' @ rel"

definition getJsonName :: "'m state \<Rightarrow> nat \<Rightarrow> string \<Rightarrow> sub \<Rightarrow> string" where
  "getJsonName s version type sub' =
     path_join (cwd s)
       (''packages/types-support/src/metadata/v'' @ toString_nat version @ ''/'' @ type
          @ ''-'' @ sub_name sub' @ ''.json'')"

definition writeJson :: "json \<Rightarrow> nat \<Rightarrow> string \<Rightarrow> sub \<Rightarrow> 'm state \<Rightarrow> 'm state" where
  "writeJson json' version type sub' s =
     s\<lparr>files := (files s)(getJsonName s version type sub' \<mapsto> json')\<rparr>"

text \<open>\<^verbatim>\<open>fs.readFileSync\<close> throws when there is no file at the path.\<close>

definition readJson :: "'m state \<Rightarrow> nat \<Rightarrow> string \<Rightarrow> sub \<Rightarrow> error + json" where
  "readJson s version type sub' =
     (case files s (getJsonName s version type sub') of
        None \<Rightarrow> Inl (ENOENT (getJsonName s version type sub'))
      | Some stored \<Rightarrow> Inr stored)"

section \<open>decodeLatestMeta\<close>

text \<open>
  \<^verbatim>\<open>delete json.metadata[`v${metadata.version}`].lookup\<close>. Reading a property of
  \<^verbatim>\<open>undefined\<close> or \<^verbatim>\<open>null\<close> throws a \<^verbatim>\<open>TypeError\<close>, and so does deleting one; a key
  that an object does not have reads as \<^verbatim>\<open>undefined\<close>, as does any of these keys on an
  array, a string, a number or a boolean; deleting a property that is not there does
  nothing.
\<close>

definition delete_lookup :: "json \<Rightarrow> nat \<Rightarrow> error + json" where
  "delete_lookup json' v =
     (case json' of
        JObj root \<Rightarrow>
          (case fmlookup root ''metadata'' of
             Some (JObj md) \<Rightarrow>
               (case fmlookup md (''v'' @ toString_nat v) of
                  None \<Rightarrow> Inl (TypeError ''Cannot convert undefined or null to object'')
                | Some JNull \<Rightarrow> Inl (TypeError ''Cannot convert undefined or null to object'')
                | Some (JObj inner) \<Rightarrow>
                    Inr (JObj (fmupd ''metadata''
                      (JObj (fmupd (''v'' @ toString_nat v)
                         (JObj (fmdrop ''lookup'' inner)) md)) root))
                | Some _ \<Rightarrow> Inr json')
           | None \<Rightarrow> Inl (TypeError ''Cannot read properties of undefined'')
           | Some JNull \<Rightarrow> Inl (TypeError ''Cannot read properties of null'')
           | Some _ \<Rightarrow> Inl (TypeError ''Cannot convert undefined or null to object''))
      | JNull \<Rightarrow> Inl (TypeError ''Cannot read properties of null'')
      | _ \<Rightarrow> Inl (TypeError ''Cannot read properties of undefined''))"

definition setMetadata :: "'m \<Rightarrow> 'm state \<Rightarrow> 'm state" where
  "setMetadata metadata s = s\<lparr>registry := Some metadata\<rparr>"

definition it_decodes_latest_substrate_properly ::
  "('m, 't, 'i) collab \<Rightarrow> 'm \<Rightarrow> string \<Rightarrow> nat \<Rightarrow> 'm state \<Rightarrow> outcome \<times> 'm state" where
  "it_decodes_latest_substrate_properly c metadata type version s =
     (case delete_lookup (toJSON c metadata) (version_of c metadata) of
        Inl e \<Rightarrow> (Fail e, s)
      | Inr json' \<Rightarrow>
          (case expect_toBe (version_of c metadata) version of
             Inl e \<Rightarrow> (Fail e, s)
           | Inr _ \<Rightarrow>
               (case (case readJson s version type Sub_json of
                        Inl e \<Rightarrow> Inl e
                      | Inr stored \<Rightarrow> expect_toEqual json' stored) of
                  Inr _ \<Rightarrow> (Pass, s)
                | Inl error \<Rightarrow>
                    if truthy (GITHUB_REPOSITORY s) then (Fail error, s)
                    else (Pass, writeJson json' version type Sub_json
                            (s\<lparr>trace := trace s @ [ConsoleError error]\<rparr>)))))"

definition it_decodes_latest_types_correctly ::
  "('m, 't, 'i) collab \<Rightarrow> 'm \<Rightarrow> string \<Rightarrow> nat \<Rightarrow> 'm state \<Rightarrow> outcome \<times> 'm state" where
  "it_decodes_latest_types_correctly c metadata type version s =
     (case asLatest c metadata of
        Inl e \<Rightarrow> (Fail e, s)
      | Inr latest' \<Rightarrow>
          (let json' = lookup_types_toJSON latest' in
           case (case readJson s version type Sub_types of
                   Inl e \<Rightarrow> Inl e
                 | Inr stored \<Rightarrow> expect_toEqual json' stored) of
             Inr _ \<Rightarrow> (Pass, s)
           | Inl error \<Rightarrow>
               if truthy (GITHUB_REPOSITORY s) then (Fail error, s)
               else (Pass, writeJson json' version type Sub_types
                       (s\<lparr>trace := trace s @ [ConsoleError error]\<rparr>))))"

definition decodeLatestMeta ::
  "('m, 't, 'i) collab \<Rightarrow> string \<Rightarrow> nat \<Rightarrow> check \<Rightarrow> 'm state
     \<Rightarrow> error + ('m test list \<times> 'm state)" where
  "decodeLatestMeta c type version chk s =
     (case new_Metadata c (registry s) (data chk) of
        Inl e \<Rightarrow> Inl e
      | Inr metadata \<Rightarrow>
          Inr (It ''decodes latest substrate properly''
                 (it_decodes_latest_substrate_properly c metadata type version)
               # (if version \<ge> 14
                  then [It ''decodes latest types correctly''
                          (it_decodes_latest_types_correctly c metadata type version)]
                  else []),
               setMetadata metadata s))"

section \<open>toLatest\<close>

definition it_converts_to_latest ::
  "('m, 't, 'i) collab \<Rightarrow> check \<Rightarrow> bool \<Rightarrow> 'm state \<Rightarrow> outcome \<times> 'm state" where
  "it_converts_to_latest c chk withThrow s =
     (case new_Metadata c (registry s) (data chk) of
        Inl e \<Rightarrow> (Fail e, s)
      | Inr metadata \<Rightarrow>
          (let s1 = setMetadata metadata s in
           case asLatest c metadata of
             Inl e \<Rightarrow> (Fail e, s1)
           | Inr latest' \<Rightarrow>
               if version_of c metadata < 14
               then (outcome_of (getUniqTypes c (registry s1) latest' withThrow),
                     s1\<lparr>trace := trace s1 @ [GetUniqTypes withThrow]\<rparr>)
               else (Pass, s1)))"

definition toLatest ::
  "('m, 't, 'i) collab \<Rightarrow> nat \<Rightarrow> check \<Rightarrow> bool \<Rightarrow> 'm state \<Rightarrow> 'm test list \<times> 'm state" where
  "toLatest c version chk withThrow s =
     ([It (''converts v'' @ toString_nat version @ '' to latest'')
          (it_converts_to_latest c chk withThrow)], s)"

section \<open>defaultValues\<close>

text \<open>The body of the \<^verbatim>\<open>try\<close>: create the instance from the fallback, and with
  \<^verbatim>\<open>withFallbackCheck\<close> compare its encoding with the fallback's.\<close>

definition default_value_try ::
  "('m, 't, 'i) collab \<Rightarrow> 'm option \<Rightarrow> bool \<Rightarrow> 't storage_item \<Rightarrow> error + unit" where
  "default_value_try c reg withFallbackCheck item =
     (case unwrapStorageSi c (item_type item) of
        Inl e \<Rightarrow> Inl e
      | Inr si \<Rightarrow>
     (case createLookupType c reg si of
        Inl e \<Rightarrow> Inl e
      | Inr lookupType \<Rightarrow>
     (case hexToU8a c (fb_toHex (fallback item)) of
        Inl e \<Rightarrow> Inl e
      | Inr u8a \<Rightarrow>
     (case createTypeUnsafe c reg lookupType [u8a] (modifier_isOptional item) of
        Inl e \<Rightarrow> Inl e
      | Inr instance' \<Rightarrow>
          if withFallbackCheck
          then (let hexType = u8aToHex (instance_toU8a c instance' False);
                    hexOrig = u8aToHex (fb_toU8a (fallback item) True)
                in if hexType \<noteq> hexOrig
                   then Inl (Error (''Fallback does not match (''
                          @ toString_int ((int (length hexOrig) - 2) div 2
                                          - (int (length hexType) - 2) div 2)
                          @ '' bytes missing): '' @ hexType @ '' !== '' @ hexOrig))
                   else Inr ())
          else Inr ()))))"

text \<open>The function given to \<^verbatim>\<open>expect\<close>: the \<^verbatim>\<open>try\<close> and its \<^verbatim>\<open>catch\<close>.\<close>

definition default_value_thunk ::
  "('m, 't, 'i) collab \<Rightarrow> string list \<Rightarrow> bool \<Rightarrow> bool \<Rightarrow> string \<Rightarrow> 't storage_item
     \<Rightarrow> 'm state \<Rightarrow> (error + unit) \<times> 'm state" where
  "default_value_thunk c fails' withThrow withFallbackCheck location item s =
     (case default_value_try c (registry s) withFallbackCheck item of
        Inr _ \<Rightarrow> (Inr (), s)
      | Inl error \<Rightarrow>
          (let message' = location @ '':: '' @ message error in
           if withThrow \<and> \<not> list_ex (\<lambda>f. str_includes location f) fails'
           then (Inl (Error message'), s)
           else (Inr (), s\<lparr>trace := trace s @ [ConsoleWarn message']\<rparr>)))"

definition it_default_value ::
  "('m, 't, 'i) collab \<Rightarrow> string list \<Rightarrow> bool \<Rightarrow> bool \<Rightarrow> string \<Rightarrow> 't storage_item
     \<Rightarrow> 'm state \<Rightarrow> outcome \<times> 'm state" where
  "it_default_value c fails' withThrow withFallbackCheck location item s =
     (outcome_of (expect_not_toThrow
        (fst (default_value_thunk c fails' withThrow withFallbackCheck location item s))),
      snd (default_value_thunk c fails' withThrow withFallbackCheck location item s))"

text \<open>The inner \<^verbatim>\<open>forEach\<close>, over the items of one pallet.\<close>

fun items_forEach ::
  "('m, 't, 'i) collab \<Rightarrow> 'm option \<Rightarrow> string list \<Rightarrow> bool \<Rightarrow> bool \<Rightarrow> string
     \<Rightarrow> 't storage_item list \<Rightarrow> error + 'm test list" where
  "items_forEach c reg fails' withThrow withFallbackCheck sectionName [] = Inr []"
| "items_forEach c reg fails' withThrow withFallbackCheck sectionName (item # items) =
     (case unwrapStorageType c reg (item_type item) (modifier_isOptional item) of
        Inl e \<Rightarrow> Inl e
      | Inr inner \<Rightarrow>
          (let location = sectionName @ ''.'' @ stringCamelCase c (item_name item)
                            @ '': '' @ inner
           in case items_forEach c reg fails' withThrow withFallbackCheck sectionName items of
                Inl e \<Rightarrow> Inl e
              | Inr rest \<Rightarrow>
                  Inr (It location
                         (it_default_value c fails' withThrow withFallbackCheck location item)
                       # rest)))"

text \<open>The outer \<^verbatim>\<open>forEach\<close>, over the pallets that passed the filter;
  \<^verbatim>\<open>storage.unwrap()\<close> throws on an absent storage.\<close>

fun pallets_forEach ::
  "('m, 't, 'i) collab \<Rightarrow> 'm option \<Rightarrow> string list \<Rightarrow> bool \<Rightarrow> bool
     \<Rightarrow> 't pallet list \<Rightarrow> error + 'm test list" where
  "pallets_forEach c reg fails' withThrow withFallbackCheck [] = Inr []"
| "pallets_forEach c reg fails' withThrow withFallbackCheck (p # ps) =
     (case storage p of
        None \<Rightarrow> Inl (Error ''Option: unwrapping a None value'')
      | Some items \<Rightarrow>
          (case items_forEach c reg fails' withThrow withFallbackCheck
                  (stringCamelCase c (pallet_name p)) items of
             Inl e \<Rightarrow> Inl e
           | Inr tests \<Rightarrow>
               (case pallets_forEach c reg fails' withThrow withFallbackCheck ps of
                  Inl e \<Rightarrow> Inl e
                | Inr rest \<Rightarrow> Inr (tests @ rest))))"

definition defaultValues ::
  "('m, 't, 'i) collab \<Rightarrow> check \<Rightarrow> bool \<Rightarrow> bool \<Rightarrow> 'm state
     \<Rightarrow> error + ('m test list \<times> 'm state)" where
  "defaultValues c chk withThrow withFallbackCheck s =
     (case new_Metadata c (registry s) (data chk) of
        Inl e \<Rightarrow> Inl e
      | Inr metadata \<Rightarrow>
          (case asLatest c metadata of
             Inl e \<Rightarrow> Inl e
           | Inr latest' \<Rightarrow>
               (case pallets_forEach c (registry s) (fails chk) withThrow withFallbackCheck
                       (filter (\<lambda>p. storage p \<noteq> None) (pallets latest')) of
                  Inl e \<Rightarrow> Inl e
                | Inr tests \<Rightarrow> Inr (tests, s))))"

section \<open>Reading a structural tree along a path\<close>

text \<open>The subtree reached from a tree by a sequence of object keys, if there is one.\<close>

fun json_get :: "json \<Rightarrow> string list \<Rightarrow> json option" where
  "json_get t [] = Some t"
| "json_get (JObj m) (k # ks) =
     (case fmlookup m k of None \<Rightarrow> None | Some t' \<Rightarrow> json_get t' ks)"
| "json_get t (k # ks) = None"

text \<open>The path \<^verbatim>\<open>metadata.v<version>.lookup\<close>.\<close>

definition lookup_path :: "nat \<Rightarrow> string list" where
  "lookup_path v = [''metadata'', ''v'' @ toString_nat v, ''lookup'']"

section \<open>The compare-or-reconcile protocol, as the specification words it\<close>

text \<open>
  Read the stored golden fixture of the kind. If it is absent or not equal to the
  produced tree: under continuous integration the mismatch is fatal; otherwise the
  discrepancy is logged and the stored fixture is overwritten with the produced tree.
\<close>

definition compare_or_reconcile ::
  "json \<Rightarrow> nat \<Rightarrow> string \<Rightarrow> sub \<Rightarrow> 'm state \<Rightarrow> outcome \<times> 'm state" where
  "compare_or_reconcile produced version type kind s =
     (let path = getJsonName s version type kind;
          mismatch = (case files s path of
                        None \<Rightarrow> Some (ENOENT path)
                      | Some stored \<Rightarrow>
                          if stored = produced then None
                          else Some (AssertionError ''toEqual''))
      in case mismatch of
           None \<Rightarrow> (Pass, s)
         | Some e \<Rightarrow>
             if truthy (GITHUB_REPOSITORY s) then (Fail e, s)
             else (Pass, s\<lparr>files := (files s)(path \<mapsto> produced),
                           trace := trace s @ [ConsoleError e]\<rparr>))"

section \<open>A small instance of the collaborators\<close>

text \<open>
  A codec with two metadata blobs, \<^verbatim>\<open>0x09\<close> of version 9 and \<^verbatim>\<open>0x0e\<close> of version 14,
  whose metadata value is its version, and whose storage values are four bytes long.
  The theorems below are instantiated on it.
\<close>

definition sample_json :: "nat \<Rightarrow> json" where
  "sample_json m =
     JObj (fmupd ''magicNumber'' (JNum 1635018093)
          (fmupd ''metadata''
             (JObj (fmupd (''v'' @ toString_nat m)
                (JObj (fmupd ''lookup'' (JArr [JStr ''u32''])
                      (fmupd ''pallets'' (JArr []) fmempty))) fmempty)) fmempty))"

definition sample_stripped :: "nat \<Rightarrow> json" where
  "sample_stripped m =
     JObj (fmupd ''metadata''
             (JObj (fmupd (''v'' @ toString_nat m)
                (JObj (fmdrop ''lookup'' (fmupd ''lookup'' (JArr [JStr ''u32''])
                      (fmupd ''pallets'' (JArr []) fmempty))))
                (fmupd (''v'' @ toString_nat m)
                   (JObj (fmupd ''lookup'' (JArr [JStr ''u32''])
                         (fmupd ''pallets'' (JArr []) fmempty))) fmempty)))
          (fmupd ''magicNumber'' (JNum 1635018093)
          (fmupd ''metadata''
             (JObj (fmupd (''v'' @ toString_nat m)
                (JObj (fmupd ''lookup'' (JArr [JStr ''u32''])
                      (fmupd ''pallets'' (JArr []) fmempty))) fmempty)) fmempty)))"

definition good_item :: "nat storage_item" where
  "good_item =
     \<lparr>item_name = ''number'', modifier_isOptional = False, item_type = 0,
      fallback = \<lparr>fb_toHex = ''0x00000000'',
                  fb_toU8a = (\<lambda>isBare. if isBare then [0, 0, 0, 0] else [16, 0, 0, 0, 0])\<rparr>\<rparr>"

definition long_item :: "nat storage_item" where
  "long_item =
     \<lparr>item_name = ''digest'', modifier_isOptional = False, item_type = 1,
      fallback = \<lparr>fb_toHex = ''0x00000000'',
                  fb_toU8a = (\<lambda>isBare. if isBare then [0, 0, 0, 0, 0]
                                       else [20, 0, 0, 0, 0, 0])\<rparr>\<rparr>"

definition bad_item :: "nat storage_item" where
  "bad_item =
     \<lparr>item_name = ''events'', modifier_isOptional = True, item_type = 2,
      fallback = \<lparr>fb_toHex = ''0x'',
                  fb_toU8a = (\<lambda>isBare. if isBare then [] else [0])\<rparr>\<rparr>"

definition sample_latest :: "nat latest" where
  "sample_latest =
     \<lparr>pallets = [\<lparr>pallet_name = ''system'', storage = Some [good_item, bad_item]\<rparr>,
                 \<lparr>pallet_name = ''utility'', storage = None\<rparr>],
      lookup_types_toJSON = JArr [JStr ''u32'']\<rparr>"

definition sample_collab :: "(nat, nat, byte list) collab" where
  "sample_collab =
     \<lparr>new_Metadata = (\<lambda>reg hex. if hex = ''0x09'' then Inr 9
                               else if hex = ''0x0e'' then Inr 14
                               else Inl (Error ''Unable to decode'')),
      version_of = (\<lambda>m. m),
      toHex = (\<lambda>m. if m = 14 then ''0x0e'' else ''0x09''),
      toJSON = sample_json,
      asLatest = (\<lambda>m. Inr sample_latest),
      asCallsOnly = (\<lambda>m. Inr m),
      getUniqTypes = (\<lambda>reg latest' withThrow. Inr ()),
      stringCamelCase = (\<lambda>name. name),
      unwrapStorageType = (\<lambda>reg t isOptional. Inr ''u32''),
      unwrapStorageSi = (\<lambda>t. Inr t),
      createLookupType = (\<lambda>reg si. Inr ''Lookup0''),
      hexToU8a = (\<lambda>hex. if hex = ''0x00000000'' then Inr [0, 0, 0, 0]
                         else if hex = ''0x'' then Inr []
                         else Inl (Error ''Expected hex'')),
      createTypeUnsafe = (\<lambda>reg type args isOptional.
                            case args of
                              [u8a] \<Rightarrow> if length u8a = 4 then Inr u8a
                                       else Inl (Error ''Unable to decode u32'')
                            | _ \<Rightarrow> Inl (Error ''Unable to decode u32'')),
      instance_toU8a = (\<lambda>inst isBare. inst)\<rparr>"

definition local_state :: "nat state" where
  "local_state =
     \<lparr>registry = None, files = Map.empty, GITHUB_REPOSITORY = None,
      cwd = ''/api'', trace = []\<rparr>"

definition ci_state :: "nat state" where
  "ci_state = local_state\<lparr>GITHUB_REPOSITORY := Some ''polkadot-js/api''\<rparr>"

definition sample_check :: check where
  "sample_check = \<lparr>data = ''0x09'', fails = []\<rparr>"

definition sample_check_v14 :: check where
  "sample_check_v14 = \<lparr>data = ''0x0e'', fails = []\<rparr>"

section \<open>Facts about the runtime functions\<close>

lemma str_includes_iff: "str_includes s f \<longleftrightarrow> (\<exists>pre post. s = pre @ f @ post)"
proof (induction s)
  case Nil
  then show ?case by auto
next
  case (Cons x xs)
  show ?case
  proof
    assume "str_includes (x # xs) f"
    then consider "take (length f) (x # xs) = f" | "str_includes xs f" by auto
    then show "\<exists>pre post. x # xs = pre @ f @ post"
    proof cases
      case 1
      then have "x # xs = [] @ f @ drop (length f) (x # xs)"
        by (metis append_Nil append_take_drop_id)
      then show ?thesis by blast
    next
      case 2
      then obtain pre post where "xs = pre @ f @ post" using Cons.IH by blast
      then have "x # xs = (x # pre) @ f @ post" by simp
      then show ?thesis by blast
    qed
  next
    assume "\<exists>pre post. x # xs = pre @ f @ post"
    then obtain pre post where e: "x # xs = pre @ f @ post" by blast
    show "str_includes (x # xs) f"
    proof (cases pre)
      case Nil
      then have "take (length f) (x # xs) = f" using e by simp
      then show ?thesis by simp
    next
      case pre: (Cons y ys)
      then have "xs = ys @ f @ post" using e by simp
      then show ?thesis using Cons.IH by auto
    qed
  qed
qed

lemma str_includes_empty: "str_includes s []"
  by (cases s) simp_all

lemma list_ex_includes:
  "list_ex (\<lambda>f. str_includes location f) fs
     \<longleftrightarrow> (\<exists>f\<in>set fs. \<exists>pre post. location = pre @ f @ post)"
  by (simp add: list_ex_iff str_includes_iff)

lemma length_hex_of_byte: "length (hex_of_byte b) = 2"
  by (simp add: hex_of_byte_def)

lemma length_concat_hex: "length (concat (map hex_of_byte bs)) = 2 * length bs"
  by (induction bs) (simp_all add: length_hex_of_byte)

lemma length_u8aToHex: "length (u8aToHex bs) = 2 + 2 * length bs"
  by (simp add: u8aToHex_def length_concat_hex)

lemma hex_char_inj:
  assumes "a < 16" "b < 16" "hex_char a = hex_char b"
  shows "a = b"
proof -
  have d: "distinct ''0123456789abcdef''" by simp
  have l: "length ''0123456789abcdef'' = 16" by simp
  show ?thesis
    using assms nth_eq_iff_index_eq[OF d, of a b] unfolding hex_char_def l by simp
qed

lemma hex_of_byte_inj:
  assumes "hex_of_byte a = hex_of_byte b"
  shows "a = b"
proof -
  have ua: "unat a < 256" and ub: "unat b < 256"
    using unsigned_less[of a] unsigned_less[of b] by simp_all
  have "hex_char (unat a div 16) = hex_char (unat b div 16)"
    and "hex_char (unat a mod 16) = hex_char (unat b mod 16)"
    using assms by (simp_all add: hex_of_byte_def)
  then have "unat a div 16 = unat b div 16" and "unat a mod 16 = unat b mod 16"
    using ua ub by (auto intro!: hex_char_inj simp: less_mult_imp_div_less)
  then have "unat a = unat b"
    by (metis div_mult_mod_eq)
  then show ?thesis by (simp add: word_unat_eq_iff)
qed

lemma concat_hex_inj:
  "concat (map hex_of_byte xs) = concat (map hex_of_byte ys) \<Longrightarrow> xs = ys"
proof (induction xs arbitrary: ys)
  case Nil
  then show ?case
    by (cases ys) (simp_all add: hex_of_byte_def)
next
  case (Cons x xs)
  show ?case
  proof (cases ys)
    case Nil
    then show ?thesis using Cons.prems by (simp add: hex_of_byte_def)
  next
    case ys: (Cons y ys')
    have "hex_of_byte x @ concat (map hex_of_byte xs)
            = hex_of_byte y @ concat (map hex_of_byte ys')"
      using Cons.prems ys by simp
    then have "hex_of_byte x = hex_of_byte y"
      and "concat (map hex_of_byte xs) = concat (map hex_of_byte ys')"
      by (simp_all add: length_hex_of_byte)
    then show ?thesis using ys Cons.IH hex_of_byte_inj by blast
  qed
qed

text \<open>Two hex strings are equal exactly when the bytes are.\<close>

lemma u8aToHex_inj: "u8aToHex xs = u8aToHex ys \<longleftrightarrow> xs = ys"
  by (auto simp: u8aToHex_def dest: concat_hex_inj)

text \<open>The lengths of the hex strings are even, so the two halvings in the message of
  the fallback check are exact, and their difference is the difference in bytes.\<close>

lemma hex_delta:
  "(int (length (u8aToHex orig)) - 2) div 2 - (int (length (u8aToHex enc)) - 2) div 2
     = int (length orig) - int (length enc)"
  by (simp add: length_u8aToHex)

lemma toString_nat_9: "toString_nat 9 = ''9''"
  by (simp add: toString_nat.simps digit_char_def)

lemma toString_nat_14: "toString_nat 14 = ''14''"
  by code_simp

lemma getJsonName_trace [simp]:
  "getJsonName (s\<lparr>trace := out\<rparr>) version type kind = getJsonName s version type kind"
  by (simp add: getJsonName_def)

lemma fmupd_same: "fmlookup m k = Some x \<Longrightarrow> fmupd k x m = m"
  by (rule fmap_ext) auto

section \<open>Facts about the test bodies\<close>

text \<open>Once the lookup is deleted and the version assertion has passed, the first test
  of \<open>decodeLatestMeta\<close> is the compare-or-reconcile protocol on the kind \<^verbatim>\<open>json\<close>.\<close>

lemma substrate_protocol:
  assumes "delete_lookup (toJSON c metadata) (version_of c metadata) = Inr produced"
    and "version_of c metadata = version"
  shows "it_decodes_latest_substrate_properly c metadata type version s
           = compare_or_reconcile produced version type Sub_json s"
  using assms
  by (auto simp: it_decodes_latest_substrate_properly_def expect_toBe_def expect_toEqual_def
      readJson_def writeJson_def compare_or_reconcile_def Let_def
      split: sum.splits option.splits)


text \<open>The test on the calls-only projection passes exactly when neither the projection
  nor the decoding of its hex raises. Whether they raise is the codec's matter.\<close>

lemma callsOnly_assertion_iff:
  "fst (it_construct_from_asCallsOnly c metadata s) = Pass
     \<longleftrightarrow> (\<exists>callsOnly m'. asCallsOnly c metadata = Inr callsOnly
            \<and> new_Metadata c (registry s) (toHex c callsOnly) = Inr m')"
  by (auto simp: it_construct_from_asCallsOnly_def outcome_of_def expect_not_toThrow_def
      split: sum.splits)

text \<open>The two ways \<open>delete_lookup\<close> succeeds: the version's object loses its key
  \<^verbatim>\<open>lookup\<close>, or the version's value is not an object and nothing changes.\<close>

lemma delete_lookup_cases:
  assumes "delete_lookup t v = Inr t'"
  obtains (removed) root md inner where "t = JObj root"
      "fmlookup root ''metadata'' = Some (JObj md)"
      "fmlookup md (''v'' @ toString_nat v) = Some (JObj inner)"
      "t' = JObj (fmupd ''metadata''
              (JObj (fmupd (''v'' @ toString_nat v) (JObj (fmdrop ''lookup'' inner)) md)) root)"
  | (untouched) root md b where "t = JObj root"
      "fmlookup root ''metadata'' = Some (JObj md)"
      "fmlookup md (''v'' @ toString_nat v) = Some b"
      "\<forall>inner. b \<noteq> JObj inner" "t' = t"
  using assms
  by (auto simp: delete_lookup_def split: json.splits option.splits)

lemma json_get_nonobj: "\<forall>m. b \<noteq> JObj m \<Longrightarrow> json_get b (k # ks) = None"
  by (cases b) simp_all

lemma delete_lookup_gone:
  assumes "delete_lookup t v = Inr t'" and "prefix (lookup_path v) p"
  shows "json_get t' p = None"
proof -
  obtain q where p: "p = ''metadata'' # (''v'' @ toString_nat v) # ''lookup'' # q"
    using assms(2) by (auto simp: lookup_path_def prefix_def)
  from assms(1) show ?thesis
    by (cases rule: delete_lookup_cases) (auto simp: p json_get_nonobj)
qed

lemma delete_lookup_keeps_paths:
  assumes "delete_lookup t v = Inr t'" and "\<not> prefix (lookup_path v) p"
  shows "json_get t' p = None \<longleftrightarrow> json_get t p = None"
  using assms(1)
proof (cases rule: delete_lookup_cases)
  case (removed root md inner)
  show ?thesis
  proof (cases p)
    case Nil
    then show ?thesis using removed by simp
  next
    case p1: (Cons k1 p1)
    show ?thesis
    proof (cases p1)
      case Nil
      then show ?thesis using removed by (auto simp: p1)
    next
      case p2: (Cons k2 p2)
      show ?thesis
      proof (cases p2)
        case Nil
        then show ?thesis using removed by (auto simp: p1 p2)
      next
        case p3: (Cons k3 p3)
        have "\<not> (k1 = ''metadata'' \<and> k2 = ''v'' @ toString_nat v \<and> k3 = ''lookup'')"
          using assms(2) by (auto simp: p1 p2 p3 lookup_path_def)
        then show ?thesis using removed by (auto simp: p1 p2 p3)
      qed
    qed
  qed
next
  case (untouched root md b)
  then show ?thesis by simp
qed

lemma delete_lookup_frame:
  assumes "delete_lookup t v = Inr t'"
    and "\<not> prefix (lookup_path v) p" and "\<not> prefix p (lookup_path v)"
  shows "json_get t' p = json_get t p"
  using assms(1)
proof (cases rule: delete_lookup_cases)
  case (removed root md inner)
  show ?thesis
  proof (cases p)
    case Nil
    then show ?thesis using assms(3) by simp
  next
    case p1: (Cons k1 p1)
    show ?thesis
    proof (cases p1)
      case Nil
      then show ?thesis using assms(3) removed by (auto simp: p1 lookup_path_def)
    next
      case p2: (Cons k2 p2)
      show ?thesis
      proof (cases p2)
        case Nil
        then show ?thesis using assms(3) removed by (auto simp: p1 p2 lookup_path_def)
      next
        case p3: (Cons k3 p3)
        have "\<not> (k1 = ''metadata'' \<and> k2 = ''v'' @ toString_nat v \<and> k3 = ''lookup'')"
          using assms(2) by (auto simp: p1 p2 p3 lookup_path_def)
        then show ?thesis using removed by (auto simp: p1 p2 p3)
      qed
    qed
  qed
next
  case (untouched root md b)
  then show ?thesis by simp
qed

lemma delete_lookup_absent:
  assumes "delete_lookup t v = Inr t'" and "json_get t (lookup_path v) = None"
  shows "t' = t"
  using assms(1)
proof (cases rule: delete_lookup_cases)
  case (removed root md inner)
  have "fmlookup inner ''lookup'' = None"
    using assms(2) removed by (simp add: lookup_path_def split: option.splits)
  then have "fmdrop ''lookup'' inner = inner"
    by (intro fmap_ext) simp
  then show ?thesis
    using removed by (simp add: fmupd_same)
next
  case (untouched root md b)
  then show ?thesis by simp
qed

text \<open>When the deletion succeeds: exactly on a value other than \<^verbatim>\<open>null\<close> at
  \<^verbatim>\<open>metadata.v<version>\<close>; on an object there, the object loses its key \<^verbatim>\<open>lookup\<close>.\<close>

lemma json_get_two:
  "json_get t [k1, k2] = Some b \<longleftrightarrow>
     (\<exists>root md. t = JObj root \<and> fmlookup root k1 = Some (JObj md) \<and> fmlookup md k2 = Some b)"
proof (cases t)
  case (JObj root)
  show ?thesis
  proof (cases "fmlookup root k1")
    case None
    then show ?thesis using JObj by simp
  next
    case (Some x)
    then show ?thesis using JObj by (cases x) (auto split: option.splits)
  qed
qed simp_all

lemma delete_lookup_succeeds_iff:
  "(\<exists>t'. delete_lookup t v = Inr t')
     \<longleftrightarrow> (\<exists>b. json_get t [''metadata'', ''v'' @ toString_nat v] = Some b \<and> b \<noteq> JNull)"
  unfolding json_get_two
  by (auto simp: delete_lookup_def split: json.splits option.splits)

lemma delete_lookup_object:
  assumes "json_get t [''metadata'', ''v'' @ toString_nat v] = Some (JObj inner)"
  shows "\<exists>t'. delete_lookup t v = Inr t'
          \<and> json_get t' [''metadata'', ''v'' @ toString_nat v]
              = Some (JObj (fmdrop ''lookup'' inner))"
proof -
  obtain root md where "t = JObj root" "fmlookup root ''metadata'' = Some (JObj md)"
      "fmlookup md (''v'' @ toString_nat v) = Some (JObj inner)"
    using assms unfolding json_get_two by blast
  then show ?thesis
    by (simp add: delete_lookup_def)
qed

lemma lookup_present_object:
  assumes "json_get t (lookup_path v) = Some l"
  shows "\<exists>inner. json_get t [''metadata'', ''v'' @ toString_nat v] = Some (JObj inner)
           \<and> fmlookup inner ''lookup'' = Some l"
proof -
  obtain root where t: "t = JObj root"
    using assms by (cases t) (simp_all add: lookup_path_def)
  obtain x where x: "fmlookup root ''metadata'' = Some x"
    using assms t by (auto simp: lookup_path_def split: option.splits)
  obtain md where md: "x = JObj md"
    using assms t x by (cases x) (simp_all add: lookup_path_def)
  obtain b where b: "fmlookup md (''v'' @ toString_nat v) = Some b"
    using assms t x md by (auto simp: lookup_path_def split: option.splits)
  obtain inner where inner: "b = JObj inner"
    using assms t x md b by (cases b) (simp_all add: lookup_path_def)
  have "fmlookup inner ''lookup'' = Some l"
    using assms t x md b inner by (auto simp: lookup_path_def split: option.splits)
  then show ?thesis using t x md b inner by simp
qed

text \<open>\<open>defaultValues\<close> registers one test for each storage item, named by its location.\<close>

lemma items_forEach_one_test_per_item:
  "items_forEach c reg fs withThrow withFallbackCheck sectionName items = Inr tests \<Longrightarrow>
   list_all2 (\<lambda>item t. \<exists>inner.
        unwrapStorageType c reg (item_type item) (modifier_isOptional item) = Inr inner
      \<and> t = It (sectionName @ ''.'' @ stringCamelCase c (item_name item) @ '': '' @ inner)
               (it_default_value c fs withThrow withFallbackCheck
                  (sectionName @ ''.'' @ stringCamelCase c (item_name item) @ '': '' @ inner)
                  item))
     items tests"
proof (induction items arbitrary: tests)
  case Nil
  then show ?case by simp
next
  case (Cons item items)
  then show ?case
    by (auto simp: Let_def split: sum.splits)
qed

lemma pallets_forEach_length:
  "pallets_forEach c reg fs withThrow withFallbackCheck ps = Inr tests \<Longrightarrow>
   length tests = (\<Sum>p\<leftarrow>ps. case storage p of None \<Rightarrow> 0 | Some items \<Rightarrow> length items)"
proof (induction ps arbitrary: tests)
  case Nil
  then show ?case by simp
next
  case (Cons p ps)
  then show ?case
    by (auto simp: Let_def split: sum.splits option.splits
        dest!: items_forEach_one_test_per_item list_all2_lengthD)
qed

section \<open>Facts about the sample instance\<close>

lemma sample_decode_v9:
  "new_Metadata sample_collab (registry s) (data sample_check) = Inr 9"
  by (simp add: sample_collab_def sample_check_def)

lemma sample_decode_v14:
  "new_Metadata sample_collab (registry s) (data sample_check_v14) = Inr 14"
  by (simp add: sample_collab_def sample_check_v14_def)

lemma sample_delete:
  "delete_lookup (toJSON sample_collab 9) (version_of sample_collab 9) = Inr (sample_stripped 9)"
  by (simp add: sample_collab_def sample_json_def sample_stripped_def delete_lookup_def)

lemma sample_version: "version_of sample_collab m = m"
  by (simp add: sample_collab_def)

lemma sample_try_bad:
  "default_value_try sample_collab reg wfc bad_item = Inl (Error ''Unable to decode u32'')"
  by (simp add: default_value_try_def sample_collab_def bad_item_def)

section \<open>The claims\<close>

text \<open>
  C1. When the metadata decodes, \<open>serialize\<close> registers as its first test
  \<^verbatim>\<open>serializes to hex in the same form as retrieved\<close>, and this test passes exactly when
  the hex of the decoded metadata is equal to \<^verbatim>\<open>check.data\<close>, as a string, character by
  character; the test changes nothing.
\<close>

theorem serialize_reencodes_identically:
  assumes "new_Metadata c (registry s) (data chk) = Inr metadata"
  shows "\<exists>body rest. serialize c chk s
            = Inr (It ''serializes to hex in the same form as retrieved'' body # rest, s)
         \<and> (\<forall>st. (fst (body st) = Pass) = (toHex c metadata = data chk))
         \<and> (\<forall>st. snd (body st) = st)"
  using assms
  by (simp add: serialize_def it_serializes_to_hex_def outcome_of_def expect_toEqual_def)

theorem serialize_reencodes_identically_witness:
  "\<exists>body rest. serialize sample_collab sample_check local_state
      = Inr (It ''serializes to hex in the same form as retrieved'' body # rest, local_state)
    \<and> (\<forall>st. fst (body st) = Pass)"
proof -
  have e: "toHex sample_collab 9 = data sample_check"
    by (simp add: sample_collab_def sample_check_def)
  show ?thesis
    using serialize_reencodes_identically[OF sample_decode_v9, of local_state] e by auto
qed

text \<open>
  C2. When the \<^verbatim>\<open>try\<close> of a storage item raises an error, be it from creating the
  instance or from the fallback comparison, the function under \<^verbatim>\<open>expect\<close> throws again,
  and the item's test fails, exactly when \<^verbatim>\<open>withThrow\<close> is true and no pattern of
  \<^verbatim>\<open>fails\<close> occurs inside the location string. In every other case the message goes to
  \<^verbatim>\<open>console.warn\<close> and the test passes. Both carry the location and the error's message.
\<close>

theorem default_value_error_classification:
  assumes "default_value_try c (registry s) withFallbackCheck item = Inl err"
  shows "it_default_value c fs withThrow withFallbackCheck location item s =
           (if withThrow \<and> \<not> (\<exists>f\<in>set fs. \<exists>pre post. location = pre @ f @ post)
            then (Fail (AssertionError (location @ '':: '' @ message err)), s)
            else (Pass, s\<lparr>trace := trace s
                            @ [ConsoleWarn (location @ '':: '' @ message err)]\<rparr>))
         \<and> fst (default_value_thunk c fs withThrow withFallbackCheck location item s) =
           (if withThrow \<and> \<not> (\<exists>f\<in>set fs. \<exists>pre post. location = pre @ f @ post)
            then Inl (Error (location @ '':: '' @ message err))
            else Inr ())"
  using assms
  by (simp add: it_default_value_def default_value_thunk_def list_ex_includes
      outcome_of_def expect_not_toThrow_def Let_def)

theorem default_value_error_classification_witness:
  "it_default_value sample_collab [] True False ''system.events: u32'' bad_item local_state
     = (Fail (AssertionError ''system.events: u32:: Unable to decode u32''), local_state)
   \<and> it_default_value sample_collab [''events''] True False ''system.events: u32'' bad_item
       local_state
     = (Pass, local_state\<lparr>trace :=
          [ConsoleWarn ''system.events: u32:: Unable to decode u32'']\<rparr>)
   \<and> it_default_value sample_collab [] False False ''system.events: u32'' bad_item local_state
     = (Pass, local_state\<lparr>trace :=
          [ConsoleWarn ''system.events: u32:: Unable to decode u32'']\<rparr>)"
proof -
  have h: "default_value_try sample_collab (registry local_state) False bad_item
             = Inl (Error ''Unable to decode u32'')"
    by (rule sample_try_bad)
  have "str_includes ''system.events: u32'' ''events''" by simp
  then have "\<exists>pre post. ''system.events: u32'' = pre @ ''events'' @ post"
    by (simp only: str_includes_iff)
  then have n: "\<not> (True \<and> \<not> (\<exists>f\<in>set [''events''].
                   \<exists>pre post. ''system.events: u32'' = pre @ f @ post))"
    by simp
  note tolerated = default_value_error_classification[OF h, of "[''events'']" True
      "''system.events: u32''", unfolded if_not_P[OF n]]
  have c: "trace local_state = []" by (simp add: local_state_def)
  show ?thesis
    using default_value_error_classification[OF h, of "[]" True "''system.events: u32''"]
      default_value_error_classification[OF h, of "[]" False "''system.events: u32''"]
      tolerated c
    by simp
qed

text \<open>
  C10. When \<^verbatim>\<open>fails\<close> contains the empty string, the test of every storage item passes,
  whatever \<^verbatim>\<open>withThrow\<close> is, and an error of its \<^verbatim>\<open>try\<close> only goes to \<^verbatim>\<open>console.warn\<close>.
\<close>

theorem empty_pattern_tolerates_every_error:
  assumes "[] \<in> set fs"
  shows "fst (it_default_value c fs withThrow withFallbackCheck location item s) = Pass
       \<and> fst (default_value_thunk c fs withThrow withFallbackCheck location item s) = Inr ()
       \<and> (\<forall>err. default_value_try c (registry s) withFallbackCheck item = Inl err \<longrightarrow>
            snd (it_default_value c fs withThrow withFallbackCheck location item s)
              = s\<lparr>trace := trace s @ [ConsoleWarn (location @ '':: '' @ message err)]\<rparr>)"
proof -
  have "list_ex (\<lambda>f. str_includes location f) fs"
    using assms str_includes_empty by (auto simp: list_ex_iff)
  then show ?thesis
    by (auto simp: it_default_value_def default_value_thunk_def
        outcome_of_def expect_not_toThrow_def Let_def split: sum.splits)
qed

theorem empty_pattern_tolerates_every_error_witness:
  "fst (it_default_value sample_collab [''''] True False ''system.events: u32'' bad_item
          local_state) = Pass
   \<and> trace (snd (it_default_value sample_collab [''''] True False ''system.events: u32''
          bad_item local_state))
     = [ConsoleWarn ''system.events: u32:: Unable to decode u32'']"
proof -
  have m: "[] \<in> set [''''::string]" by simp
  have c: "trace local_state = []" by (simp add: local_state_def)
  show ?thesis
    using empty_pattern_tolerates_every_error[OF m, of sample_collab True False
        "''system.events: u32''" bad_item local_state]
      sample_try_bad[of "registry local_state" False] c
    by simp
qed

text \<open>
  C4. With \<^verbatim>\<open>withFallbackCheck\<close>, once the instance is created from the fallback, it is
  encoded by \<^verbatim>\<open>toU8a()\<close> without the bare flag, which is the full encoding, and compared
  with the fallback's own bytes, \<^verbatim>\<open>fallback.toU8a(true)\<close>. The hex strings compared are
  equal exactly when the two byte sequences are. When they differ, an error is raised
  whose message gives the number of bytes of the fallback minus the number of bytes of
  the instance, and both hex strings.
\<close>

theorem fallback_round_trip_check:
  assumes "unwrapStorageSi c (item_type item) = Inr si"
    and "createLookupType c reg si = Inr lookupType"
    and "hexToU8a c (fb_toHex (fallback item)) = Inr u8a"
    and "createTypeUnsafe c reg lookupType [u8a] (modifier_isOptional item) = Inr inst"
  shows "default_value_try c reg True item =
           (if instance_toU8a c inst False = fb_toU8a (fallback item) True then Inr ()
            else Inl (Error (''Fallback does not match (''
                   @ toString_int (int (length (fb_toU8a (fallback item) True))
                                   - int (length (instance_toU8a c inst False)))
                   @ '' bytes missing): '' @ u8aToHex (instance_toU8a c inst False)
                   @ '' !== '' @ u8aToHex (fb_toU8a (fallback item) True))))"
  using assms
  by (simp add: default_value_try_def Let_def u8aToHex_inj hex_delta)

theorem fallback_round_trip_check_witness:
  "default_value_try sample_collab None True long_item
     = Inl (Error ''Fallback does not match (1 bytes missing): 0x00000000 !== 0x0000000000'')
   \<and> default_value_try sample_collab None True good_item = Inr ()"
proof -
  have a: "unwrapStorageSi sample_collab (item_type long_item) = Inr 1"
    by (simp add: sample_collab_def long_item_def)
  have b: "createLookupType sample_collab None 1 = Inr ''Lookup0''"
    by (simp add: sample_collab_def)
  have c: "hexToU8a sample_collab (fb_toHex (fallback long_item)) = Inr [0, 0, 0, 0]"
    by (simp add: sample_collab_def long_item_def)
  have d: "createTypeUnsafe sample_collab None ''Lookup0'' [[0, 0, 0, 0]]
             (modifier_isOptional long_item) = Inr [0, 0, 0, 0]"
    by (simp add: sample_collab_def)
  have a': "unwrapStorageSi sample_collab (item_type good_item) = Inr 0"
    by (simp add: sample_collab_def good_item_def)
  have b': "createLookupType sample_collab None 0 = Inr ''Lookup0''"
    by (simp add: sample_collab_def)
  have c': "hexToU8a sample_collab (fb_toHex (fallback good_item)) = Inr [0, 0, 0, 0]"
    by (simp add: sample_collab_def good_item_def)
  have d': "createTypeUnsafe sample_collab None ''Lookup0'' [[0, 0, 0, 0]]
             (modifier_isOptional good_item) = Inr [0, 0, 0, 0]"
    by (simp add: sample_collab_def)
  have e: "instance_toU8a sample_collab [0, 0, 0, 0] False = [0, 0, 0, 0]"
    by (simp add: sample_collab_def)
  have f: "fb_toU8a (fallback long_item) True = [0, 0, 0, 0, 0]"
    by (simp add: long_item_def)
  have f': "fb_toU8a (fallback good_item) True = [0, 0, 0, 0]"
    by (simp add: good_item_def)
  have t: "toString_int 1 = ''1''"
    by (simp add: toString_int_def toString_nat.simps digit_char_def)
  have h4: "u8aToHex [0, 0, 0, 0] = ''0x00000000''"
    by (simp add: u8aToHex_def hex_of_byte_def hex_char_def)
  have h5: "u8aToHex [0, 0, 0, 0, 0] = ''0x0000000000''"
    by (simp add: u8aToHex_def hex_of_byte_def hex_char_def)
  show ?thesis
    using fallback_round_trip_check[OF a b c d] fallback_round_trip_check[OF a' b' c' d']
    by (simp add: e f f' t h4 h5)
qed

text \<open>
  C3. In the first test of \<open>decodeLatestMeta\<close>, once the lookup is deleted and the
  version assertion has passed: when no fixture is stored at the path of kind
  \<^verbatim>\<open>json\<close>, or the stored one is not equal to the produced tree, the test fails exactly
  when \<^verbatim>\<open>process.env.GITHUB_REPOSITORY\<close> holds a non-empty string, and then nothing is
  written; otherwise the test passes, the error is printed with \<^verbatim>\<open>console.error\<close>, and
  the produced tree is written at that path.
\<close>

theorem fixture_mismatch_fatal_iff_ci:
  assumes "delete_lookup (toJSON c metadata) (version_of c metadata) = Inr produced"
    and "version_of c metadata = version"
    and "files s (getJsonName s version type Sub_json) \<noteq> Some produced"
  shows "((\<exists>e. fst (it_decodes_latest_substrate_properly c metadata type version s) = Fail e)
            \<longleftrightarrow> truthy (GITHUB_REPOSITORY s))
       \<and> (truthy (GITHUB_REPOSITORY s) \<longrightarrow>
            snd (it_decodes_latest_substrate_properly c metadata type version s) = s)
       \<and> (\<not> truthy (GITHUB_REPOSITORY s) \<longrightarrow>
            it_decodes_latest_substrate_properly c metadata type version s =
               (Pass, s\<lparr>files := (files s)(getJsonName s version type Sub_json \<mapsto> produced),
                        trace := trace s @ [ConsoleError
                          (case files s (getJsonName s version type Sub_json) of
                             None \<Rightarrow> ENOENT (getJsonName s version type Sub_json)
                           | Some stored \<Rightarrow> AssertionError ''toEqual'')]\<rparr>))"
  using assms
  by (auto simp: it_decodes_latest_substrate_properly_def expect_toBe_def expect_toEqual_def
      readJson_def writeJson_def split: sum.splits option.splits)

theorem fixture_mismatch_fatal_iff_ci_witness:
  "fst (it_decodes_latest_substrate_properly sample_collab 9 ''substrate'' 9 local_state) = Pass
   \<and> files (snd (it_decodes_latest_substrate_properly sample_collab 9 ''substrate'' 9
        local_state)) (getJsonName local_state 9 ''substrate'' Sub_json)
      = Some (sample_stripped 9)
   \<and> (\<exists>e. fst (it_decodes_latest_substrate_properly sample_collab 9 ''substrate'' 9 ci_state)
          = Fail e)
   \<and> snd (it_decodes_latest_substrate_properly sample_collab 9 ''substrate'' 9 ci_state)
      = ci_state"
proof -
  have f: "files local_state (getJsonName local_state 9 ''substrate'' Sub_json)
             \<noteq> Some (sample_stripped 9)"
    by (simp add: local_state_def)
  have f': "files ci_state (getJsonName ci_state 9 ''substrate'' Sub_json)
             \<noteq> Some (sample_stripped 9)"
    by (simp add: local_state_def ci_state_def)
  have t: "\<not> truthy (GITHUB_REPOSITORY local_state)"
    by (simp add: truthy_def local_state_def)
  have t': "truthy (GITHUB_REPOSITORY ci_state)"
    by (simp add: truthy_def local_state_def ci_state_def)
  show ?thesis
    using fixture_mismatch_fatal_iff_ci[OF sample_delete sample_version f]
      fixture_mismatch_fatal_iff_ci[OF sample_delete sample_version f'] t t'
    by simp
qed

text \<open>
  C5. When the metadata decodes, \<open>decodeLatestMeta\<close> registers the test
  \<^verbatim>\<open>decodes latest substrate properly\<close> on the decoded metadata and binds the metadata in
  the registry; that test fails, changing nothing, whenever the version of the decoded
  metadata is not the declared one, so it passes only when the two are equal.
\<close>

theorem decodeLatestMeta_asserts_version:
  assumes "new_Metadata c (registry s) (data chk) = Inr metadata"
  shows "(\<exists>rest. decodeLatestMeta c type version chk s
            = Inr (It ''decodes latest substrate properly''
                     (it_decodes_latest_substrate_properly c metadata type version) # rest,
                   setMetadata metadata s))
       \<and> (\<forall>st. version_of c metadata \<noteq> version \<longrightarrow>
            (\<exists>e. it_decodes_latest_substrate_properly c metadata type version st = (Fail e, st)))
       \<and> (\<forall>st. fst (it_decodes_latest_substrate_properly c metadata type version st) = Pass
            \<longrightarrow> version_of c metadata = version)"
proof -
  have a: "\<exists>rest. decodeLatestMeta c type version chk s
            = Inr (It ''decodes latest substrate properly''
                     (it_decodes_latest_substrate_properly c metadata type version) # rest,
                   setMetadata metadata s)"
    using assms by (simp add: decodeLatestMeta_def)
  have b: "\<forall>st. version_of c metadata \<noteq> version \<longrightarrow>
            (\<exists>e. it_decodes_latest_substrate_properly c metadata type version st = (Fail e, st))"
    by (cases "delete_lookup (toJSON c metadata) (version_of c metadata)")
       (simp_all add: it_decodes_latest_substrate_properly_def expect_toBe_def)
  have c: "\<forall>st. fst (it_decodes_latest_substrate_properly c metadata type version st) = Pass
            \<longrightarrow> version_of c metadata = version"
    by (cases "delete_lookup (toJSON c metadata) (version_of c metadata)")
       (auto simp add: it_decodes_latest_substrate_properly_def expect_toBe_def)
  from a b c show ?thesis by blast
qed

theorem decodeLatestMeta_asserts_version_witness:
  "it_decodes_latest_substrate_properly sample_collab 9 ''substrate'' 14 local_state
     = (Fail (AssertionError ''toBe''), local_state)"
proof -
  have n: "version_of sample_collab 9 \<noteq> 14" by (simp add: sample_collab_def)
  have "\<exists>e. it_decodes_latest_substrate_properly sample_collab 9 ''substrate'' 14 local_state
          = (Fail e, local_state)"
    using decodeLatestMeta_asserts_version[OF sample_decode_v9,
        where s = local_state and type = "''substrate''" and version = 14] n
    by blast
  moreover have "\<And>e. it_decodes_latest_substrate_properly sample_collab 9 ''substrate'' 14
      local_state = (Fail e, local_state) \<Longrightarrow> e = AssertionError ''toBe''"
    using sample_delete
    by (simp add: it_decodes_latest_substrate_properly_def expect_toBe_def sample_version)
  ultimately show ?thesis by blast
qed

text \<open>
  C6. The deletion at \<^verbatim>\<open>metadata.v<version>.lookup\<close> runs before the comparison. It
  succeeds exactly when the tree of \<^verbatim>\<open>toJSON()\<close> has a value other than \<^verbatim>\<open>null\<close> at
  \<^verbatim>\<open>metadata.v<version>\<close>; in particular it succeeds whenever there is a lookup subtree,
  and the object at \<^verbatim>\<open>metadata.v<version>\<close> is then the same object without its key
  \<^verbatim>\<open>lookup\<close>. Whenever it succeeds, the resulting tree is the one that the first test of
  \<open>decodeLatestMeta\<close> compares with the fixture and writes when it reconciles. In that
  tree nothing is reachable at or below the path; every other path reaches something
  exactly when it did before; every path that neither leads to that path nor continues
  it reaches the same subtree as before; and when there was nothing at that path the
  tree is unchanged.
\<close>

theorem delete_lookup_removes_exactly_lookup:
  assumes "version_of c metadata = version"
  shows "((\<exists>produced. delete_lookup (toJSON c metadata) (version_of c metadata) = Inr produced)
            \<longleftrightarrow> (\<exists>b. json_get (toJSON c metadata) [''metadata'', ''v'' @ toString_nat version]
                        = Some b \<and> b \<noteq> JNull))
       \<and> (\<forall>l. json_get (toJSON c metadata) (lookup_path version) = Some l \<longrightarrow>
             (\<exists>produced. delete_lookup (toJSON c metadata) (version_of c metadata)
                = Inr produced))
       \<and> (\<forall>inner. json_get (toJSON c metadata) [''metadata'', ''v'' @ toString_nat version]
                    = Some (JObj inner) \<longrightarrow>
             (\<exists>produced. delete_lookup (toJSON c metadata) (version_of c metadata)
                = Inr produced
              \<and> json_get produced [''metadata'', ''v'' @ toString_nat version]
                  = Some (JObj (fmdrop ''lookup'' inner))))
       \<and> (\<forall>produced.
             delete_lookup (toJSON c metadata) (version_of c metadata) = Inr produced \<longrightarrow>
               (\<forall>type s. it_decodes_latest_substrate_properly c metadata type version s
                  = compare_or_reconcile produced version type Sub_json s)
             \<and> (\<forall>p. prefix (lookup_path version) p \<longrightarrow> json_get produced p = None)
             \<and> (\<forall>p. \<not> prefix (lookup_path version) p \<longrightarrow>
                   (json_get produced p = None \<longleftrightarrow> json_get (toJSON c metadata) p = None))
             \<and> (\<forall>p. \<not> prefix (lookup_path version) p \<and> \<not> prefix p (lookup_path version)
                   \<longrightarrow> json_get produced p = json_get (toJSON c metadata) p)
             \<and> (json_get (toJSON c metadata) (lookup_path version) = None \<longrightarrow>
                   produced = toJSON c metadata))"
proof -
  have v: "version_of c metadata = version" by (rule assms)
  have a: "(\<exists>produced. delete_lookup (toJSON c metadata) (version_of c metadata) = Inr produced)
            \<longleftrightarrow> (\<exists>b. json_get (toJSON c metadata) [''metadata'', ''v'' @ toString_nat version]
                        = Some b \<and> b \<noteq> JNull)"
    unfolding v by (rule delete_lookup_succeeds_iff)
  have c: "\<forall>inner. json_get (toJSON c metadata) [''metadata'', ''v'' @ toString_nat version]
                    = Some (JObj inner) \<longrightarrow>
             (\<exists>produced. delete_lookup (toJSON c metadata) (version_of c metadata)
                = Inr produced
              \<and> json_get produced [''metadata'', ''v'' @ toString_nat version]
                  = Some (JObj (fmdrop ''lookup'' inner)))"
    unfolding v using delete_lookup_object by blast
  have b: "\<forall>l. json_get (toJSON c metadata) (lookup_path version) = Some l \<longrightarrow>
             (\<exists>produced. delete_lookup (toJSON c metadata) (version_of c metadata)
                = Inr produced)"
    using c lookup_present_object by blast
  have d: "\<forall>produced.
             delete_lookup (toJSON c metadata) (version_of c metadata) = Inr produced \<longrightarrow>
               (\<forall>type s. it_decodes_latest_substrate_properly c metadata type version s
                  = compare_or_reconcile produced version type Sub_json s)
             \<and> (\<forall>p. prefix (lookup_path version) p \<longrightarrow> json_get produced p = None)
             \<and> (\<forall>p. \<not> prefix (lookup_path version) p \<longrightarrow>
                   (json_get produced p = None \<longleftrightarrow> json_get (toJSON c metadata) p = None))
             \<and> (\<forall>p. \<not> prefix (lookup_path version) p \<and> \<not> prefix p (lookup_path version)
                   \<longrightarrow> json_get produced p = json_get (toJSON c metadata) p)
             \<and> (json_get (toJSON c metadata) (lookup_path version) = None \<longrightarrow>
                   produced = toJSON c metadata)"
  proof (intro allI impI)
    fix produced
    assume h: "delete_lookup (toJSON c metadata) (version_of c metadata) = Inr produced"
    have d': "delete_lookup (toJSON c metadata) version = Inr produced"
      using h v by simp
    show "(\<forall>type s. it_decodes_latest_substrate_properly c metadata type version s
                  = compare_or_reconcile produced version type Sub_json s)
             \<and> (\<forall>p. prefix (lookup_path version) p \<longrightarrow> json_get produced p = None)
             \<and> (\<forall>p. \<not> prefix (lookup_path version) p \<longrightarrow>
                   (json_get produced p = None \<longleftrightarrow> json_get (toJSON c metadata) p = None))
             \<and> (\<forall>p. \<not> prefix (lookup_path version) p \<and> \<not> prefix p (lookup_path version)
                   \<longrightarrow> json_get produced p = json_get (toJSON c metadata) p)
             \<and> (json_get (toJSON c metadata) (lookup_path version) = None \<longrightarrow>
                   produced = toJSON c metadata)"
      using substrate_protocol[OF h v] delete_lookup_gone[OF d']
        delete_lookup_keeps_paths[OF d'] delete_lookup_frame[OF d'] delete_lookup_absent[OF d']
      by blast
  qed
  show ?thesis
    by (rule conjI[OF a conjI[OF b conjI[OF c d]]])
qed

theorem delete_lookup_removes_exactly_lookup_witness:
  "json_get (toJSON sample_collab 9) [''metadata'', ''v9'', ''lookup'']
     = Some (JArr [JStr ''u32''])
   \<and> (\<exists>produced. delete_lookup (toJSON sample_collab 9) (version_of sample_collab 9)
         = Inr produced
       \<and> json_get produced [''metadata'', ''v9'', ''lookup''] = None
       \<and> json_get produced [''metadata'', ''v9'']
           = Some (JObj (fmupd ''pallets'' (JArr []) fmempty))
       \<and> json_get produced [''metadata'', ''v9'', ''pallets''] = Some (JArr [])
       \<and> json_get produced [''magicNumber''] = Some (JNum 1635018093))"
proof -
  let ?t = "toJSON sample_collab 9"
  let ?inner = "fmupd ''lookup'' (JArr [JStr ''u32'']) (fmupd ''pallets'' (JArr []) fmempty)"
  have l: "lookup_path 9 = [''metadata'', ''v9'', ''lookup'']"
    by (simp add: lookup_path_def toString_nat_9)
  have k: "''v'' @ toString_nat 9 = ''v9''"
    by (simp add: toString_nat_9)
  have present: "json_get ?t [''metadata'', ''v9'', ''lookup''] = Some (JArr [JStr ''u32''])"
    by (simp add: sample_collab_def sample_json_def toString_nat_9)
  have obj: "json_get ?t [''metadata'', ''v9''] = Some (JObj ?inner)"
    by (simp add: sample_collab_def sample_json_def toString_nat_9)
  have p: "json_get ?t [''metadata'', ''v9'', ''pallets''] = Some (JArr [])"
    by (simp add: sample_collab_def sample_json_def toString_nat_9)
  have m: "json_get ?t [''magicNumber''] = Some (JNum 1635018093)"
    by (simp add: sample_collab_def sample_json_def)
  have dr: "fmdrop ''lookup'' ?inner = fmupd ''pallets'' (JArr []) fmempty"
    by (simp add: fmdrop_fmupd)
  note r = delete_lookup_removes_exactly_lookup[OF sample_version[of 9], unfolded l k]
  note object = r[THEN conjunct2, THEN conjunct2, THEN conjunct1, rule_format, OF obj]
  from object obtain produced where
    d: "delete_lookup ?t (version_of sample_collab 9) = Inr produced"
    and o: "json_get produced [''metadata'', ''v9''] = Some (JObj (fmdrop ''lookup'' ?inner))"
    by (elim exE conjE)
  note after = r[THEN conjunct2, THEN conjunct2, THEN conjunct2, rule_format, OF d]
  have 1: "json_get produced [''metadata'', ''v9'', ''lookup''] = None"
    using after[THEN conjunct2, THEN conjunct1] by simp
  have 2: "json_get produced [''metadata'', ''v9'', ''pallets'']
             = json_get ?t [''metadata'', ''v9'', ''pallets'']"
    using after[THEN conjunct2, THEN conjunct2, THEN conjunct2, THEN conjunct1] by simp
  have 3: "json_get produced [''magicNumber''] = json_get ?t [''magicNumber'']"
    using after[THEN conjunct2, THEN conjunct2, THEN conjunct2, THEN conjunct1] by simp
  have "json_get produced [''metadata'', ''v9'']
          = Some (JObj (fmupd ''pallets'' (JArr []) fmempty))"
    using o dr by simp
  then show ?thesis
    using present d 1 2 3 p m by (intro conjI exI[of _ produced]) simp_all
qed



text \<open>
  C8. \<open>toLatest\<close> registers one test. When the metadata decodes, the test binds it in
  the registry; a failure of the latest projection fails the test; and once the
  projection is there, \<^verbatim>\<open>getUniqTypes\<close> is called, on the registry, the projection and
  \<^verbatim>\<open>withThrow\<close> as given, exactly when the version of the decoded metadata is below 14,
  and its result is then the result of the test.
\<close>

theorem toLatest_scan_iff_version_lt_14:
  assumes "new_Metadata c (registry s) (data chk) = Inr metadata"
  shows "toLatest c version chk withThrow s
           = ([It (''converts v'' @ toString_nat version @ '' to latest'')
                 (it_converts_to_latest c chk withThrow)], s)
       \<and> registry (snd (it_converts_to_latest c chk withThrow s)) = Some metadata
       \<and> (\<forall>e. asLatest c metadata = Inl e \<longrightarrow>
             fst (it_converts_to_latest c chk withThrow s) = Fail e)
       \<and> (\<forall>latest'. asLatest c metadata = Inr latest' \<longrightarrow>
             it_converts_to_latest c chk withThrow s =
               (if version_of c metadata < 14
                then (outcome_of (getUniqTypes c (Some metadata) latest' withThrow),
                      s\<lparr>registry := Some metadata,
                        trace := trace s @ [GetUniqTypes withThrow]\<rparr>)
                else (Pass, s\<lparr>registry := Some metadata\<rparr>)))
       \<and> (\<forall>w. GetUniqTypes w \<notin> set (trace s) \<longrightarrow>
             (GetUniqTypes w \<in> set (trace (snd (it_converts_to_latest c chk withThrow s)))
                \<longleftrightarrow> (\<exists>latest'. asLatest c metadata = Inr latest')
                     \<and> version_of c metadata < 14 \<and> w = withThrow))"
  using assms
  by (auto simp: toLatest_def it_converts_to_latest_def setMetadata_def Let_def
      split: sum.splits)

theorem toLatest_scan_iff_version_lt_14_witness:
  "it_converts_to_latest sample_collab sample_check False local_state
     = (Pass, local_state\<lparr>registry := Some 9, trace := [GetUniqTypes False]\<rparr>)
   \<and> it_converts_to_latest sample_collab sample_check_v14 False local_state
     = (Pass, local_state\<lparr>registry := Some 14\<rparr>)"
proof -
  have l: "\<And>m. asLatest sample_collab m = Inr sample_latest"
    by (simp add: sample_collab_def)
  have u: "\<And>r la w. getUniqTypes sample_collab r la w = Inr ()"
    by (simp add: sample_collab_def)
  have c: "trace local_state = []" by (simp add: local_state_def)
  show ?thesis
    using toLatest_scan_iff_version_lt_14[OF sample_decode_v9, where s = local_state
        and withThrow = False]
      toLatest_scan_iff_version_lt_14[OF sample_decode_v14, where s = local_state
        and withThrow = False]
    by (simp add: l u c sample_version outcome_of_def)
qed

end
